theory Spec2Isabelle
  imports Main "HOL-Library.Word" "HOL-Library.Multiset"
begin

section \<open>Severity levels\<close>

text \<open>
  \<^verbatim>\<open>zapcore.Level\<close> is a signed 8-bit integer; the named levels are the constants
  of the zap library, from \<^verbatim>\<open>DebugLevel = -1\<close> up to \<^verbatim>\<open>FatalLevel = 5\<close>.
\<close>

type_synonym Level = "8 word"

definition DebugLevel :: Level where "DebugLevel = - 1"
definition InfoLevel :: Level where "InfoLevel = 0"
definition WarnLevel :: Level where "WarnLevel = 1"
definition ErrorLevel :: Level where "ErrorLevel = 2"
definition DPanicLevel :: Level where "DPanicLevel = 3"
definition PanicLevel :: Level where "PanicLevel = 4"
definition FatalLevel :: Level where "FatalLevel = 5"

text \<open>
  The severities of the remote log model (\<^verbatim>\<open>otelLog.Severity\<close>) that the bridge uses;
  \<open>SeverityUndefined\<close> is the zero value of a fresh record.
\<close>

datatype Severity =
  SeverityUndefined | SeverityDebug | SeverityInfo | SeverityWarn | SeverityError | SeverityFatal

text \<open>\<^verbatim>\<open>mapZapToOtelSeverity\<close> (otlp_core.go): a switch on the level with a default.\<close>

definition mapZapToOtelSeverity :: "Level \<Rightarrow> Severity" where
  "mapZapToOtelSeverity level =
     (if level = DebugLevel then SeverityDebug
      else if level = InfoLevel then SeverityInfo
      else if level = WarnLevel then SeverityWarn
      else if level = ErrorLevel then SeverityError
      else if level = DPanicLevel \<or> level = PanicLevel \<or> level = FatalLevel then SeverityFatal
      else SeverityInfo)"

section \<open>Errors and strings\<close>

text \<open>
  A Go \<^verbatim>\<open>error\<close> is modelled by its message; \<open>None\<close> is \<^verbatim>\<open>nil\<close>. Wrapping with
  \<^verbatim>\<open>fmt.Errorf("...: %w", err)\<close> prefixes the message. Strings are byte strings.
\<close>

type_synonym error = string

text \<open>
  \<^verbatim>\<open>strings.ToLower\<close> of the Go library: a string made of ASCII bytes only is lowered
  byte by byte (and returned as it is when it has no upper-case letter); any other string is
  mapped rune by rune through the Unicode tables, which are not part of this repository
  and are the parameter \<open>unicodeLower\<close>.
\<close>

definition isASCII :: "char \<Rightarrow> bool" where
  "isASCII c = ((of_char c :: nat) < 128)"

definition isUpperASCII :: "char \<Rightarrow> bool" where
  "isUpperASCII c = (65 \<le> (of_char c :: nat) \<and> (of_char c :: nat) \<le> 90)"

definition lowerByte :: "char \<Rightarrow> char" where
  "lowerByte c = (if isUpperASCII c then char_of ((of_char c :: nat) + 32) else c)"

definition ToLower :: "(string \<Rightarrow> string) \<Rightarrow> string \<Rightarrow> string" where
  "ToLower unicodeLower s =
     (if list_all isASCII s
      then (if list_ex isUpperASCII s then map lowerByte s else s)
      else unicodeLower s)"

section \<open>Level parser\<close>

text \<open>\<^verbatim>\<open>parseLevel\<close>: a switch on the lowered string, with the default case an error.\<close>

definition parseLevel :: "(string \<Rightarrow> string) \<Rightarrow> string \<Rightarrow> Level \<times> error option" where
  "parseLevel unicodeLower levelStr =
     (let l = ToLower unicodeLower levelStr in
      if l = ''debug'' then (DebugLevel, None)
      else if l = ''info'' then (InfoLevel, None)
      else if l = ''warn'' \<or> l = ''warning'' then (WarnLevel, None)
      else if l = ''error'' then (ErrorLevel, None)
      else if l = ''fatal'' then (FatalLevel, None)
      else (InfoLevel, Some (''unknown level: '' @ levelStr)))"

text \<open>\<^verbatim>\<open>parseLevelDefault\<close>: the level of \<^verbatim>\<open>parseLevel\<close>, the error dropped.\<close>

definition parseLevelDefault :: "(string \<Rightarrow> string) \<Rightarrow> string \<Rightarrow> Level" where
  "parseLevelDefault unicodeLower levelStr =
     (case parseLevel unicodeLower levelStr of (level, _) \<Rightarrow> level)"





section \<open>Fields, contexts and configuration\<close>

text \<open>
  A Go value of type \<^verbatim>\<open>interface{}\<close>, as far as the code tells its types apart: the four
  scalar types that the bridge keeps, slices and string-keyed maps, and \<open>AOther\<close> for a
  value of any other type (it carries a description of the value). A \<^verbatim>\<open>float64\<close> is its
  IEEE-754 bit pattern.
\<close>

datatype Any =
    AString string
  | ABool bool
  | AInt64 "64 word"
  | AFloat64 "64 word"
  | ASlice "Any list"
  | AMap "(string \<times> Any) list"
  | AOther string

text \<open>
  A \<^verbatim>\<open>zapcore.Field\<close> is a key with a typed value; \<open>Encoded\<close> is the value that
  \<^verbatim>\<open>Field.AddTo\<close> stores under the key in a \<^verbatim>\<open>MapObjectEncoder\<close>. The marker kinds of zap
  that carry no value of their own (skip, namespace, inline) are outside this data model.
\<close>

datatype Field = Field (Key: string) (Encoded: Any)

definition zap_String :: "string \<Rightarrow> string \<Rightarrow> Field" where
  "zap_String key val = Field key (AString val)"

text \<open>
  A \<^verbatim>\<open>context.Context\<close> as a lookup from keys to values. A key is compared with its
  type: \<open>ContextKey\<close> is a key of this package's private type \<^verbatim>\<open>contextKey\<close>, \<open>OtherKey\<close>
  a key of any other type.
\<close>

datatype CtxKey = ContextKey string | OtherKey string

type_synonym Context = "CtxKey \<rightharpoonup> Any"

definition traceIDKey :: string where "traceIDKey = ''trace_id''"
definition userIDKey :: string where "userIDKey = ''user_id''"

definition ctxValue :: "Context \<Rightarrow> string \<Rightarrow> Any option" where
  "ctxValue ctx key = ctx (ContextKey key)"

type_synonym Duration = int

definition Millisecond :: Duration where "Millisecond = 1000000"
definition Second :: Duration where "Second = 1000000000"

record Config =
  AsJSON :: bool
  EnableOTLP :: bool
  EnableStdout :: bool
  Level :: string
  OtlpEndpoint :: string
  OtlpUseTLS :: bool
  ServiceName :: string
  ServiceEnvironment :: string
  ShutdownTimeout :: Duration
  FieldExtractors :: "(Context \<Rightarrow> Field list) list"

type_synonym Option = "Config \<Rightarrow> Config"

definition WithAsJSON :: "bool \<Rightarrow> Option" where
  "WithAsJSON v c = c\<lparr>AsJSON := v\<rparr>"

definition WithEnableOTLP :: "bool \<Rightarrow> Option" where
  "WithEnableOTLP v c = c\<lparr>EnableOTLP := v\<rparr>"

definition WithEnableStdout :: "bool \<Rightarrow> Option" where
  "WithEnableStdout v c = c\<lparr>EnableStdout := v\<rparr>"

definition WithLevel :: "string \<Rightarrow> Option" where
  "WithLevel level c = c\<lparr>Level := level\<rparr>"

definition WithOTLPEndpoint :: "string \<Rightarrow> Option" where
  "WithOTLPEndpoint endpoint c = c\<lparr>OtlpEndpoint := endpoint\<rparr>"

definition WithOTLPUseTLS :: "bool \<Rightarrow> Option" where
  "WithOTLPUseTLS v c = c\<lparr>OtlpUseTLS := v\<rparr>"

definition WithServiceName :: "string \<Rightarrow> Option" where
  "WithServiceName name c = c\<lparr>ServiceName := name\<rparr>"

definition WithServiceEnvironment :: "string \<Rightarrow> Option" where
  "WithServiceEnvironment env c = c\<lparr>ServiceEnvironment := env\<rparr>"

definition WithShutdownTimeout :: "Duration \<Rightarrow> Option" where
  "WithShutdownTimeout timeout c = c\<lparr>ShutdownTimeout := timeout\<rparr>"

definition WithFieldExtractor :: "(Context \<Rightarrow> Field list) \<Rightarrow> Option" where
  "WithFieldExtractor fn c = c\<lparr>FieldExtractors := FieldExtractors c @ [fn]\<rparr>"

text \<open>The zero value of \<^verbatim>\<open>Config\<close>, which a facade built without a configuration holds.\<close>

definition zeroConfig :: Config where
  "zeroConfig =
     \<lparr>AsJSON = False, EnableOTLP = False, EnableStdout = False, Level = [],
      OtlpEndpoint = [], OtlpUseTLS = False, ServiceName = [], ServiceEnvironment = [],
      ShutdownTimeout = 0, FieldExtractors = []\<rparr>"

section \<open>The remote log model and the log entry\<close>

datatype Value =
    EmptyValue
  | StringValue string
  | BoolValue bool
  | Int64Value "64 word"
  | Float64Value "64 word"

datatype KeyValue = KeyValue (kvKey: string) (kvValue: Value)

definition otelLog_String :: "string \<Rightarrow> string \<Rightarrow> KeyValue" where
  "otelLog_String k v = KeyValue k (StringValue v)"

definition otelLog_Bool :: "string \<Rightarrow> bool \<Rightarrow> KeyValue" where
  "otelLog_Bool k v = KeyValue k (BoolValue v)"

definition otelLog_Int64 :: "string \<Rightarrow> 64 word \<Rightarrow> KeyValue" where
  "otelLog_Int64 k v = KeyValue k (Int64Value v)"

definition otelLog_Float64 :: "string \<Rightarrow> 64 word \<Rightarrow> KeyValue" where
  "otelLog_Float64 k v = KeyValue k (Float64Value v)"

type_synonym Time = int

record Record =
  timestamp :: Time
  severity :: Severity
  body :: Value
  attributes :: "KeyValue list"

definition emptyRecord :: Record where
  "emptyRecord = \<lparr>timestamp = 0, severity = SeverityUndefined, body = EmptyValue, attributes = []\<rparr>"

definition AddAttributes :: "KeyValue list \<Rightarrow> Record \<Rightarrow> Record" where
  "AddAttributes attrs r = r\<lparr>attributes := attributes r @ attrs\<rparr>"

text \<open>
  \<^verbatim>\<open>zapcore.EntryCaller\<close> and \<^verbatim>\<open>zapcore.Entry\<close>, with the fields the code reads. The
  string of a caller is its file, a colon and its line in decimal, or "undefined".
\<close>

record EntryCaller =
  Defined :: bool
  File :: string
  Line :: int

fun digits :: "nat \<Rightarrow> string" where
  "digits n =
     (if n < 10 then [char_of (48 + n)]
      else digits (n div 10) @ [char_of (48 + n mod 10)])"

declare digits.simps [simp del]

definition itoa :: "int \<Rightarrow> string" where
  "itoa i = (if i < 0 then ''-'' @ digits (nat (- i)) else digits (nat i))"

definition EntryCaller_String :: "EntryCaller \<Rightarrow> string" where
  "EntryCaller_String c =
     (if \<not> Defined c then ''undefined'' else File c @ '':'' @ itoa (Line c))"

record Entry =
  entLevel :: Level
  entTime :: Time
  entMessage :: string
  entCaller :: EntryCaller
  entStack :: string

section \<open>The environment\<close>

text \<open>
  The handles of the telemetry SDK, built by \<^verbatim>\<open>createOTLPLogger\<close>: the exporter with its
  options, the resource with its attributes, the batch processor of the exporter, the
  provider of both, and the logger the provider hands out under a name.
\<close>

datatype ExporterOption = WithEndpoint string | WithInsecure

datatype Exporter = Exporter "ExporterOption list"

datatype Resource = Resource "(string \<times> string) list"

datatype BatchProcessor = BatchProcessor Exporter

datatype LoggerProvider = LoggerProvider Resource BatchProcessor

datatype OtlpLogger = OtlpLogger LoggerProvider string

text \<open>
  What becomes of a record handed to the remote client under a deadline. The client's
  \<^verbatim>\<open>Emit\<close> has no result, so the calling code never sees this value.
\<close>

datatype EmitOutcome = Delivered | DeadlineExceeded | TransportError

text \<open>
  Everything the code calls that is not part of this repository and that it does not
  decide: the Unicode branch of \<^verbatim>\<open>strings.ToLower\<close>, the \<^verbatim>\<open>%v\<close> verb of \<^verbatim>\<open>fmt.Sprintf\<close>,
  the order in which \<^verbatim>\<open>range\<close> visits the keys of a map, the clock, the call stack, and
  the results of the telemetry SDK.
\<close>

record Runtime =
  unicodeLower :: "string \<Rightarrow> string"
  sprintV :: "Any \<Rightarrow> string"
  rangeOrder :: "(string \<rightharpoonup> Any) \<Rightarrow> string list"
  clockNow :: Time
  runtimeCaller :: "nat \<Rightarrow> EntryCaller"
  exporterError :: "ExporterOption list \<Rightarrow> error option"
  resourceError :: "(string \<times> string) list \<Rightarrow> error option"
  emitOutcome :: "OtlpLogger \<Rightarrow> Duration \<Rightarrow> Record \<Rightarrow> EmitOutcome"
  forceFlushError :: "BatchProcessor \<Rightarrow> Duration \<Rightarrow> error option"
  shutdownError :: "LoggerProvider \<Rightarrow> Duration \<Rightarrow> error option"

text \<open>
  What the process has done so far: the lines of the standard output (each the entry and
  the fields handed to the encoder, JSON or console), the text written to the standard
  error, the records handed to the remote client with what became of each, the value of a panic
  once one has been raised, and the exit status once the process has been terminated.
\<close>

record World =
  stdout :: "(bool \<times> Entry \<times> Field list) list"
  stderr :: "string list"
  remote :: "(Record \<times> EmitOutcome) list"
  panicked :: "string option"
  exited :: "int option"

section \<open>The remote sink bridge\<close>

record SimpleOTLPCore =
  otlpLogger :: "OtlpLogger option"
  processor :: "BatchProcessor option"
  level :: Level
  emitTimeout :: Duration

definition NewSimpleOTLPCore ::
  "OtlpLogger option \<Rightarrow> BatchProcessor option \<Rightarrow> Level \<Rightarrow> Duration \<Rightarrow> SimpleOTLPCore" where
  "NewSimpleOTLPCore lg proc lvl timeout =
     (let timeout = (if timeout = 0 then 500 * Millisecond else timeout) in
      \<lparr>otlpLogger = lg, processor = proc, level = lvl, emitTimeout = timeout\<rparr>)"

text \<open>The level enabler of the bridge is a level: it enables the levels at or above it.\<close>

definition Enabled :: "SimpleOTLPCore \<Rightarrow> Level \<Rightarrow> bool" where
  "Enabled c lvl = (level c \<le>s lvl)"

definition With :: "SimpleOTLPCore \<Rightarrow> Field list \<Rightarrow> SimpleOTLPCore" where
  "With c flds =
     \<lparr>otlpLogger = otlpLogger c, processor = processor c, level = level c,
      emitTimeout = emitTimeout c\<rparr>"

text \<open>
  \<^verbatim>\<open>encodeFieldsToAttrs\<close>: every field is added to a fresh \<^verbatim>\<open>MapObjectEncoder\<close>, whose
  \<^verbatim>\<open>Fields\<close> is a map from keys to values; then the map is ranged over, in the order the
  runtime chooses, and each value becomes an attribute by the type switch.
\<close>

definition NewMapObjectEncoder :: "string \<rightharpoonup> Any" where
  "NewMapObjectEncoder = Map.empty"

definition AddTo :: "Field \<Rightarrow> (string \<rightharpoonup> Any) \<Rightarrow> (string \<rightharpoonup> Any)" where
  "AddTo f enc = enc(Key f \<mapsto> Encoded f)"

fun addFields :: "Field list \<Rightarrow> (string \<rightharpoonup> Any) \<Rightarrow> (string \<rightharpoonup> Any)" where
  "addFields [] enc = enc"
| "addFields (f # fs) enc = addFields fs (AddTo f enc)"

definition toAttr :: "(Any \<Rightarrow> string) \<Rightarrow> string \<Rightarrow> Any \<Rightarrow> KeyValue" where
  "toAttr sprint k v =
     (case v of
        AString val \<Rightarrow> otelLog_String k val
      | ABool val \<Rightarrow> otelLog_Bool k val
      | AInt64 val \<Rightarrow> otelLog_Int64 k val
      | AFloat64 val \<Rightarrow> otelLog_Float64 k val
      | ASlice val \<Rightarrow> otelLog_String k (sprint (ASlice val))
      | AMap val \<Rightarrow> otelLog_String k (sprint (AMap val))
      | AOther val \<Rightarrow> otelLog_String k (sprint (AOther val)))"

fun rangeAttrs ::
  "(Any \<Rightarrow> string) \<Rightarrow> (string \<rightharpoonup> Any) \<Rightarrow> string list \<Rightarrow> KeyValue list \<Rightarrow> KeyValue list" where
  "rangeAttrs sprint m [] attrs = attrs"
| "rangeAttrs sprint m (k # ks) attrs =
     rangeAttrs sprint m ks
       (case m k of None \<Rightarrow> attrs | Some v \<Rightarrow> attrs @ [toAttr sprint k v])"

definition encodeFieldsToAttrs :: "Runtime \<Rightarrow> Field list \<Rightarrow> KeyValue list" where
  "encodeFieldsToAttrs rt flds =
     (if length flds = 0 then []
      else
        (let enc = addFields flds NewMapObjectEncoder in
         rangeAttrs (sprintV rt) enc (rangeOrder rt enc) []))"

definition makeBaseRecord :: "Entry \<Rightarrow> Severity \<Rightarrow> Record" where
  "makeBaseRecord entry sev =
     emptyRecord\<lparr>severity := sev, body := StringValue (entMessage entry),
       timestamp := entTime entry\<rparr>"

text \<open>
  \<^verbatim>\<open>Emit\<close> of the remote client, called with a context that carries the deadline: the
  record is handed over, and nothing comes back.
\<close>

definition Emit :: "Runtime \<Rightarrow> OtlpLogger \<Rightarrow> Duration \<Rightarrow> Record \<Rightarrow> World \<Rightarrow> World" where
  "Emit rt lg deadline r w = w\<lparr>remote := remote w @ [(r, emitOutcome rt lg deadline r)]\<rparr>"

definition emitWithTimeout ::
  "Runtime \<Rightarrow> SimpleOTLPCore \<Rightarrow> Record \<Rightarrow> World \<Rightarrow> error option \<times> World" where
  "emitWithTimeout rt c r w =
     (case otlpLogger c of
        None \<Rightarrow> (Some ''otlp logger is nil'', w)
      | Some lg \<Rightarrow> (None, Emit rt lg (emitTimeout c) r w))"

definition Write ::
  "Runtime \<Rightarrow> SimpleOTLPCore \<Rightarrow> Entry \<Rightarrow> Field list \<Rightarrow> World \<Rightarrow> error option \<times> World" where
  "Write rt c entry flds w =
     (let sev = mapZapToOtelSeverity (entLevel entry);
          r = makeBaseRecord entry sev;
          r = (if length flds > 0
               then (let attrs = encodeFieldsToAttrs rt flds in
                     if length attrs > 0 then AddAttributes attrs r else r)
               else r);
          r = (if Defined (entCaller entry)
               then AddAttributes [otelLog_String ''caller'' (EntryCaller_String (entCaller entry))] r
               else r);
          r = (if entStack entry \<noteq> []
               then AddAttributes [otelLog_String ''stacktrace'' (entStack entry)] r
               else r)
      in case emitWithTimeout rt c r w of
           (Some err, w') \<Rightarrow>
             (None,
              w'\<lparr>stderr := stderr w' @
                [''failed to emit OTLP log: '' @ err @ '', message: '' @ entMessage entry
                   @ [CHR 0x0A]]\<rparr>)
         | (None, w') \<Rightarrow> (None, w'))"

definition Sync :: "Runtime \<Rightarrow> SimpleOTLPCore \<Rightarrow> error option" where
  "Sync rt c =
     (case processor c of
        None \<Rightarrow> None
      | Some p \<Rightarrow>
          (case forceFlushError rt p (emitTimeout c) of
             Some err \<Rightarrow> Some (''failed to flush OTLP processor: '' @ err)
           | None \<Rightarrow> None))"

section \<open>The cores and the logger of zap\<close>

text \<open>
  The cores this program builds: the no-op core, the core that encodes to the standard
  output (JSON or console encoder, minimum level, the fields attached by \<^verbatim>\<open>With\<close>), the
  remote bridge, and the tee of several cores. A write to the standard output is taken
  to succeed.
\<close>

datatype Core =
    NopCore
  | IOCore bool Level "Field list"
  | OTLPCore SimpleOTLPCore
  | MultiCore "Core list"

definition createStdoutCore :: "bool \<Rightarrow> Level \<Rightarrow> Core" where
  "createStdoutCore asJSON lvl = IOCore asJSON lvl []"

definition NewTee :: "Core list \<Rightarrow> Core" where
  "NewTee cores = (case cores of [] \<Rightarrow> NopCore | [c] \<Rightarrow> c | _ \<Rightarrow> MultiCore cores)"

text \<open>\<^verbatim>\<open>multierr.Append\<close>: the errors that are not nil, joined.\<close>

fun appendErr :: "error option \<Rightarrow> error option \<Rightarrow> error option" where
  "appendErr None e = e"
| "appendErr (Some a) None = Some a"
| "appendErr (Some a) (Some b) = Some (a @ ''; '' @ b)"

fun Core_Enabled :: "Core \<Rightarrow> Level \<Rightarrow> bool" where
  "Core_Enabled NopCore lvl = False"
| "Core_Enabled (IOCore asJSON minLvl attached) lvl = (minLvl \<le>s lvl)"
| "Core_Enabled (OTLPCore c) lvl = Enabled c lvl"
| "Core_Enabled (MultiCore cs) lvl = list_ex (\<lambda>c. Core_Enabled c lvl) cs"

fun Core_With :: "Core \<Rightarrow> Field list \<Rightarrow> Core" where
  "Core_With NopCore flds = NopCore"
| "Core_With (IOCore asJSON minLvl attached) flds = IOCore asJSON minLvl (attached @ flds)"
| "Core_With (OTLPCore c) flds = OTLPCore (With c flds)"
| "Core_With (MultiCore cs) flds = MultiCore (map (\<lambda>c. Core_With c flds) cs)"

text \<open>\<^verbatim>\<open>Check\<close>: the cores that add themselves to the checked entry, in order.\<close>

fun Core_Check :: "Core \<Rightarrow> Entry \<Rightarrow> Core list" where
  "Core_Check NopCore ent = []"
| "Core_Check (IOCore asJSON minLvl attached) ent =
     (if minLvl \<le>s entLevel ent then [IOCore asJSON minLvl attached] else [])"
| "Core_Check (OTLPCore c) ent = (if Enabled c (entLevel ent) then [OTLPCore c] else [])"
| "Core_Check (MultiCore cs) ent = concat (map (\<lambda>c. Core_Check c ent) cs)"

fun Core_Write :: "Runtime \<Rightarrow> Core \<Rightarrow> Entry \<Rightarrow> Field list \<Rightarrow> World \<Rightarrow> error option \<times> World" where
  "Core_Write rt NopCore ent flds w = (None, w)"
| "Core_Write rt (IOCore asJSON minLvl attached) ent flds w =
     (None, w\<lparr>stdout := stdout w @ [(asJSON, ent, attached @ flds)]\<rparr>)"
| "Core_Write rt (OTLPCore c) ent flds w = Write rt c ent flds w"
| "Core_Write rt (MultiCore cs) ent flds w =
     fold (\<lambda>c acc. case Core_Write rt c ent flds (snd acc) of
                     (err, w') \<Rightarrow> (appendErr (fst acc) err, w'))
       cs (None, w)"

fun Core_Sync :: "Runtime \<Rightarrow> Core \<Rightarrow> error option" where
  "Core_Sync rt NopCore = None"
| "Core_Sync rt (IOCore asJSON minLvl attached) = None"
| "Core_Sync rt (OTLPCore c) = Sync rt c"
| "Core_Sync rt (MultiCore cs) = fold (\<lambda>c err. appendErr err (Core_Sync rt c)) cs None"

text \<open>
  \<^verbatim>\<open>zap.Logger\<close>: its core, whether it annotates the caller and how many frames it skips,
  and whether its internal errors go to the standard error or are discarded.
\<close>

record ZapLogger =
  zcore :: Core
  addCaller :: bool
  callerSkip :: nat
  errorToStderr :: bool

definition zap_New :: "Core \<Rightarrow> ZapLogger" where
  "zap_New core = \<lparr>zcore = core, addCaller = False, callerSkip = 0, errorToStderr = True\<rparr>"

definition AddCaller :: "ZapLogger \<Rightarrow> ZapLogger" where
  "AddCaller z = z\<lparr>addCaller := True\<rparr>"

definition AddCallerSkip :: "nat \<Rightarrow> ZapLogger \<Rightarrow> ZapLogger" where
  "AddCallerSkip n z = z\<lparr>callerSkip := callerSkip z + n\<rparr>"

definition NewNop :: ZapLogger where
  "NewNop = \<lparr>zcore = NopCore, addCaller = False, callerSkip = 0, errorToStderr = False\<rparr>"

definition zap_With :: "ZapLogger \<Rightarrow> Field list \<Rightarrow> ZapLogger" where
  "zap_With z flds = (if flds = [] then z else z\<lparr>zcore := Core_With (zcore z) flds\<rparr>)"

definition zap_Sync :: "Runtime \<Rightarrow> ZapLogger \<Rightarrow> error option" where
  "zap_Sync rt z = Core_Sync rt (zcore z)"

fun writeCores ::
  "Runtime \<Rightarrow> Core list \<Rightarrow> Entry \<Rightarrow> Field list \<Rightarrow> error option \<Rightarrow> World \<Rightarrow> error option \<times> World" where
  "writeCores rt [] ent flds err w = (err, w)"
| "writeCores rt (c # cs) ent flds err w =
     (case Core_Write rt c ent flds w of
        (e, w') \<Rightarrow> writeCores rt cs ent flds (appendErr err e) w')"

text \<open>
  A logging call of zap at a level: the level check (skipped from \<^verbatim>\<open>DPanicLevel\<close> up,
  since those levels may end the process), the check of the cores, the caller annotation,
  the write to every checked core, a notice on the error output if a write failed (its
  time stamp is left out), and then the terminal behaviour of the level: \<^verbatim>\<open>PanicLevel\<close>
  panics, and \<^verbatim>\<open>FatalLevel\<close> ends the process. The documentation of \<^verbatim>\<open>Logger.Fatal\<close> in zap
  reads: "The logger then calls os.Exit(1), even if logging at FatalLevel is disabled."
\<close>

definition zap_log ::
  "Runtime \<Rightarrow> ZapLogger \<Rightarrow> Level \<Rightarrow> string \<Rightarrow> Field list \<Rightarrow> World \<Rightarrow> World" where
  "zap_log rt z lvl msg flds w =
     (if lvl <s DPanicLevel \<and> \<not> Core_Enabled (zcore z) lvl then w
      else
        (let ent = \<lparr>entLevel = lvl, entTime = clockNow rt, entMessage = msg,
                    entCaller = \<lparr>Defined = False, File = [], Line = 0\<rparr>, entStack = []\<rparr>;
             cores = Core_Check (zcore z) ent;
             ent = (if cores \<noteq> [] \<and> addCaller z
                    then ent\<lparr>entCaller := runtimeCaller rt (callerSkip z + 2)\<rparr> else ent);
             written = writeCores rt cores ent flds None w;
             w = (case fst written of
                    None \<Rightarrow> snd written
                  | Some e \<Rightarrow>
                      (if errorToStderr z
                       then (snd written)\<lparr>stderr := stderr (snd written) @
                              [''write error: '' @ e @ [CHR 0x0A]]\<rparr>
                       else snd written))
         in if lvl = PanicLevel then w\<lparr>panicked := Some msg\<rparr>
            else if lvl = FatalLevel then w\<lparr>exited := Some 1\<rparr>
            else w))"

section \<open>The facade\<close>

record Logger =
  zapLogger :: ZapLogger
  otelProvider :: "LoggerProvider option"
  config :: Config

text \<open>
  \<^verbatim>\<open>fieldsFromContext\<close> (context.go): the two well-known keys, each only when the context
  holds a non-empty string under it, then the loop over the configured extractors, each
  result appended.
\<close>

fun runExtractors ::
  "(Context \<Rightarrow> Field list) list \<Rightarrow> Context \<Rightarrow> Field list \<Rightarrow> Field list" where
  "runExtractors [] ctx flds = flds"
| "runExtractors (fn # fns) ctx flds = runExtractors fns ctx (flds @ fn ctx)"

definition fieldsFromContext :: "Logger \<Rightarrow> Context \<Rightarrow> Field list" where
  "fieldsFromContext l ctx =
     (let flds = [];
          flds = (case ctxValue ctx traceIDKey of
                    Some (AString traceID) \<Rightarrow>
                      (if traceID \<noteq> [] then flds @ [zap_String traceIDKey traceID] else flds)
                  | _ \<Rightarrow> flds);
          flds = (case ctxValue ctx userIDKey of
                    Some (AString userID) \<Rightarrow>
                      (if userID \<noteq> [] then flds @ [zap_String userIDKey userID] else flds)
                  | _ \<Rightarrow> flds)
      in runExtractors (FieldExtractors (config l)) ctx flds)"

definition Debug :: "Runtime \<Rightarrow> Logger \<Rightarrow> Context \<Rightarrow> string \<Rightarrow> Field list \<Rightarrow> World \<Rightarrow> World" where
  "Debug rt l ctx msg flds w =
     zap_log rt (zapLogger l) DebugLevel msg (fieldsFromContext l ctx @ flds) w"

definition Info :: "Runtime \<Rightarrow> Logger \<Rightarrow> Context \<Rightarrow> string \<Rightarrow> Field list \<Rightarrow> World \<Rightarrow> World" where
  "Info rt l ctx msg flds w =
     zap_log rt (zapLogger l) InfoLevel msg (fieldsFromContext l ctx @ flds) w"

definition Warn :: "Runtime \<Rightarrow> Logger \<Rightarrow> Context \<Rightarrow> string \<Rightarrow> Field list \<Rightarrow> World \<Rightarrow> World" where
  "Warn rt l ctx msg flds w =
     zap_log rt (zapLogger l) WarnLevel msg (fieldsFromContext l ctx @ flds) w"

definition Error :: "Runtime \<Rightarrow> Logger \<Rightarrow> Context \<Rightarrow> string \<Rightarrow> Field list \<Rightarrow> World \<Rightarrow> World" where
  "Error rt l ctx msg flds w =
     zap_log rt (zapLogger l) ErrorLevel msg (fieldsFromContext l ctx @ flds) w"

definition Fatal :: "Runtime \<Rightarrow> Logger \<Rightarrow> Context \<Rightarrow> string \<Rightarrow> Field list \<Rightarrow> World \<Rightarrow> World" where
  "Fatal rt l ctx msg flds w =
     zap_log rt (zapLogger l) FatalLevel msg (fieldsFromContext l ctx @ flds) w"

definition Logger_With :: "Logger \<Rightarrow> Field list \<Rightarrow> Logger" where
  "Logger_With l flds =
     \<lparr>zapLogger = zap_With (zapLogger l) flds, otelProvider = otelProvider l,
      config = config l\<rparr>"

definition WithContext :: "Logger \<Rightarrow> Context \<Rightarrow> Logger" where
  "WithContext l ctx =
     \<lparr>zapLogger = zap_With (zapLogger l) (fieldsFromContext l ctx),
      otelProvider = otelProvider l, config = config l\<rparr>"

definition Logger_Sync :: "Runtime \<Rightarrow> Logger \<Rightarrow> error option" where
  "Logger_Sync rt l = zap_Sync rt (zapLogger l)"

text \<open>
  \<^verbatim>\<open>Close\<close>: the errors of the sync and of the provider's shutdown are collected, and
  reported together if there is any.
\<close>

fun joinErrs :: "error list \<Rightarrow> string" where
  "joinErrs [] = []"
| "joinErrs [e] = e"
| "joinErrs (e # es) = e @ '' '' @ joinErrs es"

definition Close :: "Runtime \<Rightarrow> Logger \<Rightarrow> error option" where
  "Close rt l =
     (let errs = [];
          errs = (case zap_Sync rt (zapLogger l) of
                    Some err \<Rightarrow> errs @ [''failed to sync zap: '' @ err]
                  | None \<Rightarrow> errs);
          errs = (case otelProvider l of
                    None \<Rightarrow> errs
                  | Some provider \<Rightarrow>
                      (case shutdownError rt provider (ShutdownTimeout (config l)) of
                         Some err \<Rightarrow> errs @ [''failed to shutdown OTLP: '' @ err]
                       | None \<Rightarrow> errs))
      in if length errs > 0 then Some (''close errors: ['' @ joinErrs errs @ '']'') else None)"

text \<open>The no-op facades: \<^verbatim>\<open>NewNoopLogger\<close> (nop.go), \<^verbatim>\<open>NewNopLogger\<close> and \<^verbatim>\<open>NewBenchmarkLogger\<close>.\<close>

definition NewNoopLogger :: Logger where
  "NewNoopLogger = \<lparr>zapLogger = NewNop, otelProvider = None, config = zeroConfig\<rparr>"

definition NewNopLogger :: Logger where
  "NewNopLogger = \<lparr>zapLogger = NewNop, otelProvider = None, config = zeroConfig\<rparr>"

definition NewBenchmarkLogger :: Logger where
  "NewBenchmarkLogger = \<lparr>zapLogger = zap_New NopCore, otelProvider = None, config = zeroConfig\<rparr>"

section \<open>Construction\<close>

definition createOTLPExporter :: "Runtime \<Rightarrow> string \<Rightarrow> bool \<Rightarrow> error + Exporter" where
  "createOTLPExporter rt endpoint useTLS =
     (let opts = [WithEndpoint endpoint];
          opts = (if \<not> useTLS then opts @ [WithInsecure] else opts)
      in case exporterError rt opts of Some err \<Rightarrow> Inl err | None \<Rightarrow> Inr (Exporter opts))"

definition createResource :: "Runtime \<Rightarrow> string \<Rightarrow> string \<Rightarrow> error + Resource" where
  "createResource rt serviceName serviceEnvironment =
     (let attrs = [(''service.name'', serviceName),
                   (''deployment.environment'', serviceEnvironment)]
      in case resourceError rt attrs of Some err \<Rightarrow> Inl err | None \<Rightarrow> Inr (Resource attrs))"

definition createOTLPLogger ::
  "Runtime \<Rightarrow> string \<Rightarrow> string \<Rightarrow> string \<Rightarrow> bool
     \<Rightarrow> error + (OtlpLogger \<times> LoggerProvider \<times> BatchProcessor)" where
  "createOTLPLogger rt endpoint serviceName serviceEnvironment useTLS =
     (case createOTLPExporter rt endpoint useTLS of
        Inl err \<Rightarrow> Inl (''failed to create OTLP exporter: '' @ err)
      | Inr exporter \<Rightarrow>
          (case createResource rt serviceName serviceEnvironment of
             Inl err \<Rightarrow> Inl (''failed to create resource: '' @ err)
           | Inr rs \<Rightarrow>
               (let proc = BatchProcessor exporter;
                    provider = LoggerProvider rs proc
                in Inr (OtlpLogger provider ''app'', provider, proc))))"

definition createOTLPCore :: "Runtime \<Rightarrow> Config \<Rightarrow> error + (SimpleOTLPCore \<times> LoggerProvider)" where
  "createOTLPCore rt cfg =
     (case createOTLPLogger rt (OtlpEndpoint cfg) (ServiceName cfg) (ServiceEnvironment cfg)
             (OtlpUseTLS cfg) of
        Inl err \<Rightarrow> Inl err
      | Inr (lg, provider, proc) \<Rightarrow>
          Inr (NewSimpleOTLPCore (Some lg) (Some proc)
                 (parseLevelDefault (unicodeLower rt) (Level cfg)) (ShutdownTimeout cfg),
               provider))"

definition buildCores ::
  "Runtime \<Rightarrow> Config \<Rightarrow> Level \<Rightarrow> World
     \<Rightarrow> (error + (Core list \<times> LoggerProvider option)) \<times> World" where
  "buildCores rt cfg lvl w =
     (let cores = [];
          provider = None;
          cores = (if EnableStdout cfg then cores @ [createStdoutCore (AsJSON cfg) lvl] else cores);
          built =
            (if EnableOTLP cfg
             then (case createOTLPCore rt cfg of
                     Inl err \<Rightarrow>
                       (cores, provider,
                        w\<lparr>stderr := stderr w @
                            [''failed to create OTLP core: '' @ err @ [CHR 0x0A]]\<rparr>)
                   | Inr (otlpCore, p) \<Rightarrow> (cores @ [OTLPCore otlpCore], Some p, w))
             else (cores, provider, w))
      in case built of
           (cores, provider, w') \<Rightarrow>
             (if length cores = 0 then (Inl ''no cores configured'', w')
              else (Inr (cores, provider), w')))"

definition defaultConfig :: Config where
  "defaultConfig =
     zeroConfig\<lparr>AsJSON := True, EnableOTLP := False, EnableStdout := True, Level := ''info'',
       ShutdownTimeout := 2 * Second\<rparr>"

definition NewLogger :: "Runtime \<Rightarrow> Option list \<Rightarrow> World \<Rightarrow> (error + Logger) \<times> World" where
  "NewLogger rt opts w =
     (let cfg = fold (\<lambda>opt c. opt c) opts defaultConfig in
      case parseLevel (unicodeLower rt) (Level cfg) of
        (lvl, Some err) \<Rightarrow> (Inl (''invalid log level: '' @ err), w)
      | (lvl, None) \<Rightarrow>
          (case buildCores rt cfg lvl w of
             (Inl err, w') \<Rightarrow> (Inl (''failed to build cores: '' @ err), w')
           | (Inr (cores, provider), w') \<Rightarrow>
               (Inr \<lparr>zapLogger = AddCallerSkip 1 (AddCaller (zap_New (NewTee cores))),
                     otelProvider = provider, config = cfg\<rparr>,
                w')))"

section \<open>The words of the specification\<close>




text \<open>
  The sink list, as the specification words it: the console sink first, if enabled, and
  the remote bridge second, if enabled and constructed.
\<close>

definition sinkList :: "Runtime \<Rightarrow> Config \<Rightarrow> Level \<Rightarrow> Core list" where
  "sinkList rt cfg lvl =
     (if EnableStdout cfg then [createStdoutCore (AsJSON cfg) lvl] else [])
     @ (if EnableOTLP cfg
        then (case createOTLPCore rt cfg of Inl err \<Rightarrow> [] | Inr (c, p) \<Rightarrow> [OTLPCore c])
        else [])"

text \<open>The remote bridges among the cores of a core.\<close>

fun remoteCores :: "Core \<Rightarrow> SimpleOTLPCore list" where
  "remoteCores NopCore = []"
| "remoteCores (IOCore asJSON minLvl attached) = []"
| "remoteCores (OTLPCore c) = [c]"
| "remoteCores (MultiCore cs) = concat (map remoteCores cs)"

text \<open>
  The fields of a context, as the specification words them: the trace id and the user id,
  each if present as a non-empty string, then the fields of every extractor in order.
\<close>

definition contextField :: "Context \<Rightarrow> string \<Rightarrow> Field list" where
  "contextField ctx key =
     (case ctxValue ctx key of
        Some (AString v) \<Rightarrow> (if v = [] then [] else [Field key (AString v)])
      | _ \<Rightarrow> [])"

definition contextFields :: "(Context \<Rightarrow> Field list) list \<Rightarrow> Context \<Rightarrow> Field list" where
  "contextFields extractors ctx =
     contextField ctx ''trace_id'' @ contextField ctx ''user_id''
     @ concat (map (\<lambda>fn. fn ctx) extractors)"

section \<open>A concrete environment\<close>

text \<open>
  An environment, a bridge and an entry on which the theorems below are evaluated. The
  \<^verbatim>\<open>range\<close> of this environment visits the keys in a fixed order of its own.
\<close>

definition exampleSprint :: "Any \<Rightarrow> string" where
  "exampleSprint v =
     (case v of
        ASlice xs \<Rightarrow> ''[...]''
      | AMap kvs \<Rightarrow> ''map[...]''
      | AOther d \<Rightarrow> d
      | _ \<Rightarrow> [])"

definition exampleRuntime :: Runtime where
  "exampleRuntime =
     \<lparr>unicodeLower = id,
      sprintV = exampleSprint,
      rangeOrder = (\<lambda>m. filter (\<lambda>k. m k \<noteq> None) [''user_id'', ''n'', ''xs'', ''k'', ''trace_id'']),
      clockNow = 1700000000,
      runtimeCaller = (\<lambda>skip. \<lparr>Defined = True, File = ''main.go'', Line = 42\<rparr>),
      exporterError = (\<lambda>opts. None),
      resourceError = (\<lambda>attrs. None),
      emitOutcome = (\<lambda>lg deadline r. Delivered),
      forceFlushError = (\<lambda>p deadline. None),
      shutdownError = (\<lambda>p deadline. None)\<rparr>"

definition exampleProcessor :: BatchProcessor where
  "exampleProcessor = BatchProcessor (Exporter [WithEndpoint ''localhost:4317'', WithInsecure])"

definition exampleClient :: OtlpLogger where
  "exampleClient = OtlpLogger (LoggerProvider (Resource []) exampleProcessor) ''app''"

definition exampleCore :: SimpleOTLPCore where
  "exampleCore = NewSimpleOTLPCore (Some exampleClient) (Some exampleProcessor) InfoLevel (2 * Second)"

definition exampleEntry :: Entry where
  "exampleEntry =
     \<lparr>entLevel = ErrorLevel, entTime = 1700000000, entMessage = ''boom'',
      entCaller = \<lparr>Defined = True, File = ''main.go'', Line = 42\<rparr>, entStack = []\<rparr>"

definition emptyWorld :: World where
  "emptyWorld = \<lparr>stdout = [], stderr = [], remote = [], panicked = None, exited = None\<rparr>"


text \<open>
  A context with both well-known keys, a facade with the console sink and one extractor,
  and an environment in which the exporter cannot be created.
\<close>

definition exampleContext :: Context where
  "exampleContext =
     [ContextKey ''trace_id'' \<mapsto> AString ''12345'', ContextKey ''user_id'' \<mapsto> AString ''user1'']"

definition exampleLogger :: Logger where
  "exampleLogger =
     \<lparr>zapLogger = AddCallerSkip 1 (AddCaller (zap_New (NewTee [createStdoutCore True InfoLevel]))),
      otelProvider = None,
      config = WithFieldExtractor (\<lambda>ctx. [Field ''tenant'' (AString ''acme'')]) defaultConfig\<rparr>"

definition failingRuntime :: Runtime where
  "failingRuntime = exampleRuntime\<lparr>exporterError := \<lambda>opts. Some ''connection refused''\<rparr>"

section \<open>Theorems\<close>

lemmas Level_defs =
  DebugLevel_def InfoLevel_def WarnLevel_def ErrorLevel_def
  DPanicLevel_def PanicLevel_def FatalLevel_def

text \<open>
  C5. The remote bridge maps every zap severity by the fixed table: debug to DEBUG,
  info to INFO, warn to WARN, error to ERROR, each of dpanic, panic and fatal to FATAL,
  and every other level value to INFO.
\<close>

theorem mapZapToOtelSeverity_table:
  "mapZapToOtelSeverity DebugLevel = SeverityDebug
   \<and> mapZapToOtelSeverity InfoLevel = SeverityInfo
   \<and> mapZapToOtelSeverity WarnLevel = SeverityWarn
   \<and> mapZapToOtelSeverity ErrorLevel = SeverityError
   \<and> mapZapToOtelSeverity DPanicLevel = SeverityFatal
   \<and> mapZapToOtelSeverity PanicLevel = SeverityFatal
   \<and> mapZapToOtelSeverity FatalLevel = SeverityFatal
   \<and> (lvl \<notin> {DebugLevel, InfoLevel, WarnLevel, ErrorLevel, DPanicLevel, PanicLevel, FatalLevel}
        \<longrightarrow> mapZapToOtelSeverity lvl = SeverityInfo)"
  by (simp add: mapZapToOtelSeverity_def Level_defs)

theorem mapZapToOtelSeverity_table_witness:
  "(42 :: Level) \<notin> {DebugLevel, InfoLevel, WarnLevel, ErrorLevel, DPanicLevel, PanicLevel, FatalLevel}
   \<and> mapZapToOtelSeverity 42 = SeverityInfo"
  using mapZapToOtelSeverity_table [of 42] by (simp add: Level_defs)

subsection \<open>Level parser\<close>









subsection \<open>The remote bridge\<close>













lemma Write_client:
  assumes "otlpLogger c = Some lg"
  shows "Write rt c entry flds w =
     (None, w\<lparr>remote := remote w @
        [(\<lparr>timestamp = entTime entry, severity = mapZapToOtelSeverity (entLevel entry),
           body = StringValue (entMessage entry),
           attributes = encodeFieldsToAttrs rt flds
             @ (if Defined (entCaller entry)
                then [KeyValue ''caller'' (StringValue (EntryCaller_String (entCaller entry)))]
                else [])
             @ (if entStack entry \<noteq> []
                then [KeyValue ''stacktrace'' (StringValue (entStack entry))] else [])\<rparr>,
          emitOutcome rt lg (emitTimeout c)
            \<lparr>timestamp = entTime entry, severity = mapZapToOtelSeverity (entLevel entry),
           body = StringValue (entMessage entry),
           attributes = encodeFieldsToAttrs rt flds
             @ (if Defined (entCaller entry)
                then [KeyValue ''caller'' (StringValue (EntryCaller_String (entCaller entry)))]
                else [])
             @ (if entStack entry \<noteq> []
                then [KeyValue ''stacktrace'' (StringValue (entStack entry))] else [])\<rparr>)]\<rparr>)"
  using assms
  by (simp add: Write_def Let_def emitWithTimeout_def Emit_def makeBaseRecord_def emptyRecord_def
      AddAttributes_def otelLog_String_def encodeFieldsToAttrs_def)

lemma Write_nil:
  assumes "otlpLogger c = None"
  shows "Write rt c entry flds w =
     (None, w\<lparr>stderr := stderr w @
        [''failed to emit OTLP log: otlp logger is nil, message: '' @ entMessage entry @ [CHR 0x0A]]\<rparr>)"
  using assms by (simp add: Write_def Let_def emitWithTimeout_def)




lemma Write_returns_nil: "fst (Write rt c entry flds w) = None"
  by (cases "otlpLogger c") (simp_all add: Write_nil Write_client)

lemma example_client: "otlpLogger exampleCore = Some exampleClient"
  by (simp add: exampleCore_def NewSimpleOTLPCore_def)


text \<open>
  C1. A write to the bridge returns success whatever becomes of the record. For a bridge
  with a client this is all that happens: the record is handed to the client, whose
  \<^verbatim>\<open>Emit\<close> has no result, so \<^verbatim>\<open>emitWithTimeout\<close> returns \<^verbatim>\<open>nil\<close> and nothing is written to
  the standard error, also when the emission runs past its deadline or fails in
  transport. The fallback notice is written only for a bridge without a client
  (lemma \<open>Write_nil\<close>).
\<close>

theorem Write_emit_outcome_unseen:
  assumes "otlpLogger c = Some lg"
  shows "fst (Write rt c entry flds w) = None
         \<and> stderr (snd (Write rt c entry flds w)) = stderr w
         \<and> (\<exists>r. remote (snd (Write rt c entry flds w))
                   = remote w @ [(r, emitOutcome rt lg (emitTimeout c) r)])"
  by (simp add: Write_client [OF assms])

theorem Write_emit_outcome_unseen_witness:
  "otlpLogger exampleCore = Some exampleClient
   \<and> fst (Write (exampleRuntime\<lparr>emitOutcome := \<lambda>lg deadline r. DeadlineExceeded\<rparr>)
            exampleCore exampleEntry [] emptyWorld) = None
   \<and> stderr (snd (Write (exampleRuntime\<lparr>emitOutcome := \<lambda>lg deadline r. DeadlineExceeded\<rparr>)
                    exampleCore exampleEntry [] emptyWorld)) = []
   \<and> remote (snd (Write (exampleRuntime\<lparr>emitOutcome := \<lambda>lg deadline r. DeadlineExceeded\<rparr>)
                    exampleCore exampleEntry [] emptyWorld))
       = [(\<lparr>timestamp = 1700000000, severity = SeverityError, body = StringValue ''boom'',
            attributes = [KeyValue ''caller'' (StringValue ''main.go:42'')]\<rparr>,
           DeadlineExceeded)]"
proof -
  let ?rt = "exampleRuntime\<lparr>emitOutcome := \<lambda>lg deadline r. DeadlineExceeded\<rparr>"
  note t = Write_emit_outcome_unseen [OF example_client, of ?rt exampleEntry "[]" emptyWorld]
  have e: "stderr emptyWorld = []" by (simp add: emptyWorld_def)
  have v: "remote (snd (Write ?rt exampleCore exampleEntry [] emptyWorld))
       = [(\<lparr>timestamp = 1700000000, severity = SeverityError, body = StringValue ''boom'',
            attributes = [KeyValue ''caller'' (StringValue ''main.go:42'')]\<rparr>,
           DeadlineExceeded)]"
    by code_simp
  from t e v example_client show ?thesis by simp
qed



text \<open>
  C7. \<^verbatim>\<open>With\<close> returns a bridge with the client, the batching pipeline, the level and the
  timeout of the original; the extra fields are kept nowhere, so a write through the
  returned bridge is the write through the original, directly or as a core of zap.
\<close>

theorem With_keeps_parts_drops_fields:
  "otlpLogger (With c extra) = otlpLogger c
   \<and> processor (With c extra) = processor c
   \<and> level (With c extra) = level c
   \<and> emitTimeout (With c extra) = emitTimeout c
   \<and> Write rt (With c extra) entry flds w = Write rt c entry flds w
   \<and> Core_Write rt (Core_With (OTLPCore c) extra) entry flds w
       = Core_Write rt (OTLPCore c) entry flds w"
proof -
  have "With c extra = c" by (simp add: With_def)
  then show ?thesis by simp
qed

theorem With_keeps_parts_drops_fields_witness:
  "remote (snd (Write exampleRuntime (With exampleCore [Field ''extra'' (AString ''x'')])
                  exampleEntry [Field ''n'' (AInt64 7)] emptyWorld))
     = [(\<lparr>timestamp = 1700000000, severity = SeverityError, body = StringValue ''boom'',
          attributes = [KeyValue ''n'' (Int64Value 7),
                        KeyValue ''caller'' (StringValue ''main.go:42'')]\<rparr>,
         Delivered)]"
proof -
  have "remote (snd (Write exampleRuntime exampleCore exampleEntry [Field ''n'' (AInt64 7)]
                       emptyWorld))
     = [(\<lparr>timestamp = 1700000000, severity = SeverityError, body = StringValue ''boom'',
          attributes = [KeyValue ''n'' (Int64Value 7),
                        KeyValue ''caller'' (StringValue ''main.go:42'')]\<rparr>,
         Delivered)]"
    by code_simp
  with With_keeps_parts_drops_fields
         [of exampleCore "[Field ''extra'' (AString ''x'')]" exampleRuntime exampleEntry
            "[Field ''n'' (AInt64 7)]" emptyWorld]
  show ?thesis by simp
qed





subsection \<open>The facade\<close>

lemma runExtractors_concat:
  "runExtractors fns ctx flds = flds @ concat (map (\<lambda>fn. fn ctx) fns)"
  by (induction fns arbitrary: flds) simp_all

lemma fieldsFromContext_spec:
  "fieldsFromContext l ctx = contextFields (FieldExtractors (config l)) ctx"
  by (simp add: fieldsFromContext_def contextFields_def contextField_def runExtractors_concat
      traceIDKey_def userIDKey_def zap_String_def Let_def split: option.splits Any.splits)

text \<open>
  C4. The fields extracted from a context are the trace-id field if the context holds a
  non-empty string under the trace-id key, the user-id field likewise, and then the
  fields of every configured extractor in the order of registration; a key that is
  absent, not a string or empty gives no field. Every per-level method hands the logger
  of zap these fields followed by the fields of the call, at its level.
\<close>

theorem level_methods_fields:
  "fieldsFromContext l ctx = contextFields (FieldExtractors (config l)) ctx
   \<and> Debug rt l ctx msg flds w
       = zap_log rt (zapLogger l) DebugLevel msg
           (contextFields (FieldExtractors (config l)) ctx @ flds) w
   \<and> Info rt l ctx msg flds w
       = zap_log rt (zapLogger l) InfoLevel msg
           (contextFields (FieldExtractors (config l)) ctx @ flds) w
   \<and> Warn rt l ctx msg flds w
       = zap_log rt (zapLogger l) WarnLevel msg
           (contextFields (FieldExtractors (config l)) ctx @ flds) w
   \<and> Error rt l ctx msg flds w
       = zap_log rt (zapLogger l) ErrorLevel msg
           (contextFields (FieldExtractors (config l)) ctx @ flds) w
   \<and> Fatal rt l ctx msg flds w
       = zap_log rt (zapLogger l) FatalLevel msg
           (contextFields (FieldExtractors (config l)) ctx @ flds) w"
  by (simp add: Debug_def Info_def Warn_def Error_def Fatal_def fieldsFromContext_spec)

lemma nop_below_dpanic:
  "lvl <s DPanicLevel \<Longrightarrow> zap_log rt NewNop lvl msg flds w = w"
  by (simp add: zap_log_def NewNop_def)

lemma below_dpanic:
  "DebugLevel <s DPanicLevel" "InfoLevel <s DPanicLevel"
  "WarnLevel <s DPanicLevel" "ErrorLevel <s DPanicLevel"
  by (simp_all add: Level_defs word_sless_alt)

lemma zap_Sync_nop: "zap_Sync rt NewNop = None"
  by (simp add: zap_Sync_def NewNop_def)

lemma NewNoopLogger_quiet:
  "Debug rt NewNoopLogger ctx msg flds w = w
   \<and> Info rt NewNoopLogger ctx msg flds w = w
   \<and> Warn rt NewNoopLogger ctx msg flds w = w
   \<and> Error rt NewNoopLogger ctx msg flds w = w
   \<and> Logger_Sync rt NewNoopLogger = None
   \<and> Close rt NewNoopLogger = None"
  by (simp add: Debug_def Info_def Warn_def Error_def NewNoopLogger_def nop_below_dpanic
      below_dpanic Logger_Sync_def Close_def zap_Sync_nop)

text \<open>
  C8. The no-op facade holds the no-op logger of zap in the ordinary facade type. Its
  calls below the fatal level, its \<^verbatim>\<open>Sync\<close> and its \<^verbatim>\<open>Close\<close> do nothing and return no
  error (lemma \<open>NewNoopLogger_quiet\<close>). Its \<^verbatim>\<open>Fatal\<close> is the one of the facade: it writes
  nothing, and ends the process with exit status 1.
\<close>

theorem NewNoopLogger_Fatal_exits:
  "Fatal rt NewNoopLogger ctx msg flds w = w\<lparr>exited := Some 1\<rparr>
   \<and> Fatal rt NewNopLogger ctx msg flds w = w\<lparr>exited := Some 1\<rparr>"
  by (simp add: Fatal_def NewNoopLogger_def NewNopLogger_def zap_log_def NewNop_def Level_defs
      word_sless_alt Let_def)

subsection \<open>Construction\<close>

lemma buildCores_result:
  "fst (buildCores rt cfg lvl w) =
     (if sinkList rt cfg lvl = [] then Inl ''no cores configured''
      else Inr (sinkList rt cfg lvl,
                if EnableOTLP cfg
                then (case createOTLPCore rt cfg of Inl err \<Rightarrow> None | Inr (c, p) \<Rightarrow> Some p)
                else None))"
  by (simp add: buildCores_def sinkList_def Let_def split: sum.splits prod.splits)

lemma buildCores_stderr:
  "snd (buildCores rt cfg lvl w) =
     (if EnableOTLP cfg
      then (case createOTLPCore rt cfg of
              Inl err \<Rightarrow> w\<lparr>stderr := stderr w @ [''failed to create OTLP core: '' @ err @ [CHR 0x0A]]\<rparr>
            | Inr cp \<Rightarrow> w)
      else w)"
  by (simp add: buildCores_def Let_def split: sum.splits prod.splits)

lemma NewLogger_result:
  assumes "parseLevel (unicodeLower rt) (Level (fold (\<lambda>opt c. opt c) opts defaultConfig)) = (lvl, None)"
  shows "fst (NewLogger rt opts w) =
     (case fst (buildCores rt (fold (\<lambda>opt c. opt c) opts defaultConfig) lvl w) of
        Inl err \<Rightarrow> Inl (''failed to build cores: '' @ err)
      | Inr (cores, provider) \<Rightarrow>
          Inr \<lparr>zapLogger = AddCallerSkip 1 (AddCaller (zap_New (NewTee cores))),
                otelProvider = provider,
                config = fold (\<lambda>opt c. opt c) opts defaultConfig\<rparr>)"
  using assms
  by (cases "buildCores rt (fold (\<lambda>opt c. opt c) opts defaultConfig) lvl w")
     (simp add: NewLogger_def Let_def split: sum.splits prod.splits)

text \<open>
  C2. Given a valid level string, the cores are built as the sink list: the console sink
  first if enabled, the remote bridge second if enabled and constructed. A failure to
  construct the bridge is reported on the standard error and leaves the bridge out.
  Construction fails if and only if the sink list is empty, and the facade it returns
  otherwise logs to the tee of the sink list.
\<close>

theorem construction_sinks:
  assumes "cfg = fold (\<lambda>opt c. opt c) opts defaultConfig"
    and "parseLevel (unicodeLower rt) (Level cfg) = (lvl, None)"
  shows "(case fst (buildCores rt cfg lvl w) of
            Inl err \<Rightarrow> sinkList rt cfg lvl = []
          | Inr (cores, provider) \<Rightarrow> cores = sinkList rt cfg lvl \<and> cores \<noteq> [])
         \<and> stderr (snd (buildCores rt cfg lvl w)) =
             stderr w
             @ (if EnableOTLP cfg
                then (case createOTLPCore rt cfg of
                        Inl err \<Rightarrow> [''failed to create OTLP core: '' @ err @ [CHR 0x0A]]
                      | Inr cp \<Rightarrow> [])
                else [])
         \<and> isl (fst (NewLogger rt opts w)) = (sinkList rt cfg lvl = [])
         \<and> (case fst (NewLogger rt opts w) of
               Inl err \<Rightarrow> err = ''failed to build cores: no cores configured''
             | Inr l \<Rightarrow> zcore (zapLogger l) = NewTee (sinkList rt cfg lvl) \<and> config l = cfg)"
proof -
  have n: "fst (NewLogger rt opts w) =
     (case fst (buildCores rt cfg lvl w) of
        Inl err \<Rightarrow> Inl (''failed to build cores: '' @ err)
      | Inr (cores, provider) \<Rightarrow>
          Inr \<lparr>zapLogger = AddCallerSkip 1 (AddCaller (zap_New (NewTee cores))),
                otelProvider = provider, config = cfg\<rparr>)"
    using NewLogger_result [of rt opts lvl w] assms(2) unfolding assms(1) by simp
  show ?thesis
    by (simp add: n buildCores_result buildCores_stderr AddCallerSkip_def AddCaller_def zap_New_def
        split: sum.splits prod.splits)
qed

lemma createOTLPCore_timeout:
  "createOTLPCore rt cfg = Inr (c, p) \<Longrightarrow>
   emitTimeout c = (if ShutdownTimeout cfg = 0 then 500 * Millisecond else ShutdownTimeout cfg)"
  by (auto simp: createOTLPCore_def NewSimpleOTLPCore_def Let_def split: sum.splits prod.splits)

lemma remoteCores_NewTee: "remoteCores (NewTee cores) = concat (map remoteCores cores)"
  by (simp add: NewTee_def split: list.splits)

lemma sinkList_remote:
  "concat (map remoteCores (sinkList rt cfg lvl)) =
     (if EnableOTLP cfg
      then (case createOTLPCore rt cfg of Inl err \<Rightarrow> [] | Inr (c, p) \<Rightarrow> [c])
      else [])"
  by (simp add: sinkList_def createStdoutCore_def split: sum.splits prod.splits)

lemma remoteCores_sinkList:
  assumes "c \<in> set (concat (map remoteCores (sinkList rt cfg lvl)))"
  shows "emitTimeout c =
           (if ShutdownTimeout cfg = 0 then 500 * Millisecond else ShutdownTimeout cfg)"
proof -
  from assms have "\<exists>p. createOTLPCore rt cfg = Inr (c, p)"
    unfolding sinkList_remote
    by (cases "EnableOTLP cfg"; cases "createOTLPCore rt cfg") auto
  then show ?thesis by (auto dest: createOTLPCore_timeout)
qed

text \<open>
  C9. The bridge that the facade constructs gets the configured shutdown timeout as its
  per-emit timeout: the timeout of the bridge is the shutdown timeout unless that is
  zero, and only then the bridge's own default of 500 milliseconds. The default
  configuration has a shutdown timeout of 2 seconds.
\<close>

theorem emit_timeout_is_shutdown_timeout:
  "(\<forall>c p. createOTLPCore rt cfg = Inr (c, p) \<longrightarrow>
       emitTimeout c = (if ShutdownTimeout cfg = 0 then 500 * Millisecond else ShutdownTimeout cfg))
   \<and> (\<forall>l. fst (NewLogger rt opts w) = Inr l \<longrightarrow>
         (\<forall>c \<in> set (remoteCores (zcore (zapLogger l))).
            emitTimeout c =
              (if ShutdownTimeout (config l) = 0 then 500 * Millisecond
               else ShutdownTimeout (config l))))
   \<and> ShutdownTimeout defaultConfig = 2 * Second
   \<and> 500 * Millisecond \<noteq> 2 * Second"
proof (intro conjI allI impI ballI)
  fix c p assume "createOTLPCore rt cfg = Inr (c, p)"
  then show "emitTimeout c = (if ShutdownTimeout cfg = 0 then 500 * Millisecond else ShutdownTimeout cfg)"
    by (rule createOTLPCore_timeout)
next
  fix l c
  assume l: "fst (NewLogger rt opts w) = Inr l"
    and c: "c \<in> set (remoteCores (zcore (zapLogger l)))"
  let ?cfg = "fold (\<lambda>opt c. opt c) opts defaultConfig"
  obtain lvl e where p: "parseLevel (unicodeLower rt) (Level ?cfg) = (lvl, e)"
    by (cases "parseLevel (unicodeLower rt) (Level ?cfg)")
  have e: "e = None" using l p
    by (cases e) (simp_all add: NewLogger_def Let_def)
  have "zcore (zapLogger l) = NewTee (sinkList rt ?cfg lvl) \<and> config l = ?cfg"
    using l p e NewLogger_result [of rt opts lvl w]
    by (auto simp: buildCores_result AddCallerSkip_def AddCaller_def zap_New_def
        split: if_splits sum.splits prod.splits)
  with c show "emitTimeout c =
              (if ShutdownTimeout (config l) = 0 then 500 * Millisecond
               else ShutdownTimeout (config l))"
    by (simp add: remoteCores_NewTee remoteCores_sinkList)
next
  show "ShutdownTimeout defaultConfig = 2 * Second"
    by (simp add: defaultConfig_def zeroConfig_def)
next
  show "500 * Millisecond \<noteq> 2 * Second"
    by (simp add: Millisecond_def Second_def)
qed


subsection \<open>The facade on the concrete environment\<close>

theorem level_methods_fields_witness:
  "contextFields (FieldExtractors (config exampleLogger)) exampleContext
     = [Field ''trace_id'' (AString ''12345''), Field ''user_id'' (AString ''user1''),
        Field ''tenant'' (AString ''acme'')]
   \<and> stdout (Info exampleRuntime exampleLogger exampleContext ''hello''
               [Field ''k'' (AString ''v'')] emptyWorld)
       = [(True,
           \<lparr>entLevel = InfoLevel, entTime = 1700000000, entMessage = ''hello'',
            entCaller = \<lparr>Defined = True, File = ''main.go'', Line = 42\<rparr>, entStack = []\<rparr>,
           [Field ''trace_id'' (AString ''12345''), Field ''user_id'' (AString ''user1''),
            Field ''tenant'' (AString ''acme''), Field ''k'' (AString ''v'')])]
   \<and> fieldsFromContext exampleLogger (exampleContext(ContextKey ''trace_id'' \<mapsto> AString []))
       = [Field ''user_id'' (AString ''user1''), Field ''tenant'' (AString ''acme'')]"
proof -
  note t = level_methods_fields
             [of exampleLogger exampleContext exampleRuntime "''hello''"
                "[Field ''k'' (AString ''v'')]" emptyWorld]
  note t2 = level_methods_fields
             [of exampleLogger "exampleContext(ContextKey ''trace_id'' \<mapsto> AString [])"]
  have c: "contextFields (FieldExtractors (config exampleLogger)) exampleContext
     = [Field ''trace_id'' (AString ''12345''), Field ''user_id'' (AString ''user1''),
        Field ''tenant'' (AString ''acme'')]"
    by code_simp
  have c2: "contextFields (FieldExtractors (config exampleLogger))
              (exampleContext(ContextKey ''trace_id'' \<mapsto> AString []))
     = [Field ''user_id'' (AString ''user1''), Field ''tenant'' (AString ''acme'')]"
    by code_simp
  have z: "stdout (zap_log exampleRuntime (zapLogger exampleLogger) InfoLevel ''hello''
                     ([Field ''trace_id'' (AString ''12345''), Field ''user_id'' (AString ''user1''),
                       Field ''tenant'' (AString ''acme'')] @ [Field ''k'' (AString ''v'')])
                     emptyWorld)
       = [(True,
           \<lparr>entLevel = InfoLevel, entTime = 1700000000, entMessage = ''hello'',
            entCaller = \<lparr>Defined = True, File = ''main.go'', Line = 42\<rparr>, entStack = []\<rparr>,
           [Field ''trace_id'' (AString ''12345''), Field ''user_id'' (AString ''user1''),
            Field ''tenant'' (AString ''acme''), Field ''k'' (AString ''v'')])]"
    by code_simp
  from t c z have s: "stdout (Info exampleRuntime exampleLogger exampleContext ''hello''
               [Field ''k'' (AString ''v'')] emptyWorld)
       = [(True,
           \<lparr>entLevel = InfoLevel, entTime = 1700000000, entMessage = ''hello'',
            entCaller = \<lparr>Defined = True, File = ''main.go'', Line = 42\<rparr>, entStack = []\<rparr>,
           [Field ''trace_id'' (AString ''12345''), Field ''user_id'' (AString ''user1''),
            Field ''tenant'' (AString ''acme''), Field ''k'' (AString ''v'')])]"
    by simp
  from t2 c2 have f: "fieldsFromContext exampleLogger
                        (exampleContext(ContextKey ''trace_id'' \<mapsto> AString []))
       = [Field ''user_id'' (AString ''user1''), Field ''tenant'' (AString ''acme'')]"
    by simp
  from c s f show ?thesis by blast
qed

theorem construction_sinks_witness:
  "parseLevel (unicodeLower failingRuntime)
     (Level (fold (\<lambda>opt c. opt c) [WithEnableStdout False, WithEnableOTLP True] defaultConfig))
     = (InfoLevel, None)
   \<and> sinkList failingRuntime
        (fold (\<lambda>opt c. opt c) [WithEnableStdout False, WithEnableOTLP True] defaultConfig)
        InfoLevel = []
   \<and> isl (fst (NewLogger failingRuntime [WithEnableStdout False, WithEnableOTLP True] emptyWorld))
   \<and> stderr (snd (NewLogger failingRuntime [WithEnableStdout False, WithEnableOTLP True]
                    emptyWorld))
       = [''failed to create OTLP core: failed to create OTLP exporter: connection refused''
            @ [CHR 0x0A]]
   \<and> sinkList failingRuntime (fold (\<lambda>opt c. opt c) [WithEnableOTLP True] defaultConfig)
        InfoLevel = [IOCore True InfoLevel []]
   \<and> \<not> isl (fst (NewLogger failingRuntime [WithEnableOTLP True] emptyWorld))
   \<and> stderr (snd (NewLogger failingRuntime [WithEnableOTLP True] emptyWorld))
       = [''failed to create OTLP core: failed to create OTLP exporter: connection refused''
            @ [CHR 0x0A]]"
proof -
  let ?o1 = "[WithEnableStdout False, WithEnableOTLP True]"
  let ?o2 = "[WithEnableOTLP True]"
  have p1: "parseLevel (unicodeLower failingRuntime)
              (Level (fold (\<lambda>opt c. opt c) ?o1 defaultConfig)) = (InfoLevel, None)"
    by code_simp
  have p2: "parseLevel (unicodeLower failingRuntime)
              (Level (fold (\<lambda>opt c. opt c) ?o2 defaultConfig)) = (InfoLevel, None)"
    by code_simp
  have s1: "sinkList failingRuntime (fold (\<lambda>opt c. opt c) ?o1 defaultConfig) InfoLevel = []"
    by code_simp
  have s2: "sinkList failingRuntime (fold (\<lambda>opt c. opt c) ?o2 defaultConfig) InfoLevel
              = [IOCore True InfoLevel []]"
    by code_simp
  have e1: "stderr (snd (NewLogger failingRuntime ?o1 emptyWorld))
       = [''failed to create OTLP core: failed to create OTLP exporter: connection refused''
            @ [CHR 0x0A]]"
    by code_simp
  have e2: "stderr (snd (NewLogger failingRuntime ?o2 emptyWorld))
       = [''failed to create OTLP core: failed to create OTLP exporter: connection refused''
            @ [CHR 0x0A]]"
    by code_simp
  from construction_sinks [OF refl p1, of emptyWorld] s1
  have i1: "isl (fst (NewLogger failingRuntime ?o1 emptyWorld))" by simp
  from construction_sinks [OF refl p2, of emptyWorld] s2
  have i2: "\<not> isl (fst (NewLogger failingRuntime ?o2 emptyWorld))" by simp
  from p1 s1 i1 e1 s2 i2 e2 show ?thesis by blast
qed

theorem emit_timeout_is_shutdown_timeout_witness:
  "(case createOTLPCore exampleRuntime defaultConfig of
      Inl err \<Rightarrow> False | Inr (c, p) \<Rightarrow> emitTimeout c = 2 * Second)
   \<and> (case createOTLPCore exampleRuntime (WithShutdownTimeout 0 defaultConfig) of
        Inl err \<Rightarrow> False | Inr (c, p) \<Rightarrow> emitTimeout c = 500 * Millisecond)
   \<and> (case fst (NewLogger exampleRuntime [WithEnableOTLP True] emptyWorld) of
        Inl err \<Rightarrow> False
      | Inr l \<Rightarrow> map emitTimeout (remoteCores (zcore (zapLogger l))) = [2 * Second])"
proof -
  obtain c p where c: "createOTLPCore exampleRuntime defaultConfig = Inr (c, p)"
    by (simp add: createOTLPCore_def createOTLPLogger_def createOTLPExporter_def
        createResource_def exampleRuntime_def Let_def)
  obtain c' p' where c': "createOTLPCore exampleRuntime (WithShutdownTimeout 0 defaultConfig)
                            = Inr (c', p')"
    by (simp add: createOTLPCore_def createOTLPLogger_def createOTLPExporter_def
        createResource_def exampleRuntime_def Let_def)
  have d: "ShutdownTimeout defaultConfig = 2 * Second"
    and d': "ShutdownTimeout (WithShutdownTimeout 0 defaultConfig) = 0"
    by (simp_all add: defaultConfig_def zeroConfig_def WithShutdownTimeout_def)
  have n: "2 * Second \<noteq> (0 :: int)" by (simp add: Second_def)
  from emit_timeout_is_shutdown_timeout [of exampleRuntime defaultConfig] c d n
  have a: "emitTimeout c = 2 * Second" by auto
  from emit_timeout_is_shutdown_timeout
         [of exampleRuntime "WithShutdownTimeout 0 defaultConfig"] c' d'
  have a': "emitTimeout c' = 500 * Millisecond" by auto
  have l: "(case fst (NewLogger exampleRuntime [WithEnableOTLP True] emptyWorld) of
        Inl err \<Rightarrow> False
      | Inr l \<Rightarrow> map emitTimeout (remoteCores (zcore (zapLogger l))) = [2 * Second])"
    by code_simp
  from c a c' a' l show ?thesis by simp
qed


end
